theory Spec2Isabelle
  imports Main
begin

section \<open>Values, errors and effects shared by the first-party modules\<close>

text \<open>
  The first-party modules are asynchronous event handlers. Each \<open>async\<close> method is
  modelled as a function returning the list of outbound calls it issued, in order,
  together with the way its promise settles: \<open>Inr v\<close> when it fulfils with \<open>v\<close>,
  \<open>Inl e\<close> when it rejects with the error \<open>e\<close> (an exception that escapes the
  method and reaches its caller, the framework).

  The errors: a \<open>TypeError\<close> of the language (reading a property of \<open>undefined\<close>),
  the framework's \<open>AkairoError\<close>, kept as the key and the arguments it is
  constructed with (its message table is not part of the sources), and an error
  raised by the platform behind a call.
\<close>

datatype js_error =
    TypeError
  | AkairoError string "string list"
  | PlatformError string

type_synonym 'a result = "js_error + 'a"

section \<open>Component (src/modules/extensions/Component.js)\<close>

text \<open>
  \<open>class Component extends AkairoModule\<close> with the two flags set by its constructor.
  The default value of the \<open>options\<close> parameter is
  \<open>{ enabled: true, disableAfterUse: false }\<close>; a caller that passes its own object
  gets that object's fields, which may be absent (\<open>undefined\<close>, here \<open>None\<close>).
\<close>

record component_options =
  opt_enabled :: "bool option"
  opt_disableAfterUse :: "bool option"

record component =
  component_id :: string
  enabled :: "bool option"
  disableAfterUse :: "bool option"

definition default_component_options :: component_options where
  "default_component_options = \<lparr>opt_enabled = Some True, opt_disableAfterUse = Some False\<rparr>"

definition Component_new :: "string \<Rightarrow> component_options option \<Rightarrow> component" where
  "Component_new ident options =
     (let opts = (case options of None \<Rightarrow> default_component_options | Some given \<Rightarrow> given)
      in \<lparr>component_id = ident,
          enabled = opt_enabled opts,
          disableAfterUse = opt_disableAfterUse opts\<rparr>)"

text \<open>
  A class below \<open>Component\<close>: its name, the \<open>exec\<close> method its body declares (if any)
  and the class it extends. \<open>this.constructor.name\<close> is the name of the class the
  object was created from.
\<close>

datatype 'i js_class =
    ComponentClass
  | Extends string "('i \<Rightarrow> unit result) option" "'i js_class"

fun constructor_name :: "'i js_class \<Rightarrow> string" where
  "constructor_name ComponentClass = ''Component''"
| "constructor_name (Extends name own_exec parent) = name"

text \<open>The body of \<open>Component.exec\<close>: it throws, whatever the interaction.\<close>

definition Component_exec :: "string \<Rightarrow> 'i \<Rightarrow> unit result" where
  "Component_exec this_constructor_name interaction =
     Inl (AkairoError ''NOT_IMPLEMENTED'' [this_constructor_name, ''exec''])"

text \<open>
  Method lookup along the prototype chain: the nearest class that declares \<open>exec\<close>
  wins; \<open>Component\<close> itself is reached when none does.
\<close>

fun resolve_exec :: "'i js_class \<Rightarrow> ('i \<Rightarrow> unit result) option" where
  "resolve_exec ComponentClass = None"
| "resolve_exec (Extends name (Some own_exec) parent) = Some own_exec"
| "resolve_exec (Extends name None parent) = resolve_exec parent"

definition overrides_exec :: "'i js_class \<Rightarrow> bool" where
  "overrides_exec cls = (resolve_exec cls \<noteq> None)"

definition invoke_exec :: "'i js_class \<Rightarrow> 'i \<Rightarrow> unit result" where
  "invoke_exec cls interaction =
     (case resolve_exec cls of
        Some own_exec \<Rightarrow> own_exec interaction
      | None \<Rightarrow> Component_exec (constructor_name cls) interaction)"

section \<open>The outbound calls and the platform behind them\<close>

text \<open>
  \<open>role\<close> and \<open>guild_member\<close> carry the fields of the discord.js objects that the
  command reads: \<open>role.id\<close>, \<open>role.name\<close>, \<open>member.user.tag\<close> and the keys of
  \<open>member.roles.cache\<close>. The message is one sent in a guild; \<open>message.util\<close> is
  the framework's reply helper.
\<close>

record role =
  role_id :: string
  role_name :: string

record guild_member =
  user_tag :: string
  roles_cache :: "string list"

record message =
  guild_id :: string

datatype call =
    GetRole string string
  | RolesFetch string
  | UtilSend string
  | RolesRemove guild_member string
  | RolesAdd guild_member string
  | WebhookSend string string
  | LoggerInfo string

text \<open>
  The code behind these calls (the data store, discord.js, the logger) is not part of
  the repository's sources, so it is a parameter: for each call, whether it fulfils
  (and with what) or rejects.
\<close>

record platform =
  database_getRole :: "string \<Rightarrow> string \<Rightarrow> string option result"
  roles_fetch :: "string \<Rightarrow> role option result"
  util_send :: "string \<Rightarrow> unit result"
  member_roles_remove :: "guild_member \<Rightarrow> string \<Rightarrow> unit result"
  member_roles_add :: "guild_member \<Rightarrow> string \<Rightarrow> unit result"
  webhook_send :: "string \<Rightarrow> string \<Rightarrow> unit result"
  logger_info :: "string \<Rightarrow> unit result"

text \<open>
  An asynchronous computation: the calls issued so far and how it settles. An
  \<open>await\<close> of a rejected call ends the computation with that rejection.
\<close>

type_synonym 'a io = "call list \<times> 'a result"

definition io_throw :: "js_error \<Rightarrow> 'a io" where
  "io_throw e = ([], Inl e)"

definition await_call :: "call \<Rightarrow> 'a result \<Rightarrow> 'a io" where
  "await_call c r = ([c], r)"

definition io_bind :: "'a io \<Rightarrow> ('a \<Rightarrow> 'b io) \<Rightarrow> 'b io" where
  "io_bind m f =
     (case m of
        (tr, Inl e) \<Rightarrow> (tr, Inl e)
      | (tr, Inr x) \<Rightarrow> (case f x of (tr', r) \<Rightarrow> (tr @ tr', r)))"

text \<open>\<open>promise.catch(handler)\<close>: a rejection becomes the handler's value.\<close>

definition io_catch :: "'a io \<Rightarrow> (js_error \<Rightarrow> 'a) \<Rightarrow> 'a io" where
  "io_catch m handler =
     (case m of
        (tr, Inl e) \<Rightarrow> (tr, Inr (handler e))
      | (tr, Inr x) \<Rightarrow> (tr, Inr x))"

section \<open>The Staff command (Staff.exec)\<close>

text \<open>
  The value of \<open>args.member\<close>. The argument's type is
  \<open>Argument.union('member', 'string')\<close>, so it is \<open>null\<close>, a string or a guild member.
\<close>

datatype member_arg =
    Null
  | Str string
  | Member guild_member

text \<open>JavaScript truthiness, as \<open>!args.member\<close> tests it.\<close>

fun truthy :: "member_arg \<Rightarrow> bool" where
  "truthy Null = False"
| "truthy (Str s) = (s \<noteq> [])"
| "truthy (Member m) = True"

text \<open>
  The two built-in type casters of the framework's \<open>TypeResolver\<close> that the union
  names, \<open>Argument.isFailure\<close> on these values, and \<open>Argument.union\<close>: the first
  caster whose result is not a failure decides. \<open>resolveMember\<close>, the framework's
  search of the guild's member cache for a phrase, is a parameter.
\<close>

definition type_string :: "string \<Rightarrow> member_arg" where
  "type_string phrase = (if phrase = [] then Null else Str phrase)"

definition type_member :: "(string \<Rightarrow> guild_member option) \<Rightarrow> bool \<Rightarrow> string \<Rightarrow> member_arg" where
  "type_member resolveMember inGuild phrase =
     (if phrase = [] then Null
      else if \<not> inGuild then Null
      else (case resolveMember phrase of None \<Rightarrow> Null | Some m \<Rightarrow> Member m))"

definition isFailure :: "member_arg \<Rightarrow> bool" where
  "isFailure v = (v = Null)"

fun Argument_union :: "(string \<Rightarrow> member_arg) list \<Rightarrow> string \<Rightarrow> member_arg" where
  "Argument_union [] phrase = Null"
| "Argument_union (entry # types) phrase =
     (let res = entry phrase in if \<not> isFailure res then res else Argument_union types phrase)"

definition Staff_member_type :: "(string \<Rightarrow> guild_member option) \<Rightarrow> bool \<Rightarrow> string \<Rightarrow> member_arg" where
  "Staff_member_type resolveMember inGuild =
     Argument_union [type_member resolveMember inGuild, type_string]"

text \<open>The replies of the command.\<close>

definition msg_valid_user :: string where
  "msg_valid_user = ''Please provide a valid user.''"

definition msg_not_setup :: string where
  "msg_not_setup = ''Staff Role is not setupped in this server!Try `.rolesetup staff <role>''"

definition msg_not_present :: string where
  "msg_not_present = ''Staff Role is not present in this server!''"

definition msg_removed :: "role \<Rightarrow> guild_member \<Rightarrow> string" where
  "msg_removed r m = ''Removed **'' @ role_name r @ ''** role from **'' @ user_tag m @ ''**''"

definition msg_added :: "role \<Rightarrow> guild_member \<Rightarrow> string" where
  "msg_added r m = ''Added **'' @ role_name r @ ''** role to **'' @ user_tag m @ ''**''"

definition send :: "platform \<Rightarrow> string \<Rightarrow> unit io" where
  "send p content = await_call (UtilSend content) (util_send p content)"

text \<open>
  Lines 61 to 75 of \<open>Staff.exec\<close>: \<open>args.member.roles\<close> is \<open>undefined\<close> on a string,
  so reading \<open>.cache\<close> from it throws a \<open>TypeError\<close>.
\<close>

definition toggle :: "platform \<Rightarrow> member_arg \<Rightarrow> role \<Rightarrow> unit io" where
  "toggle p member r =
     (case member of
        Member m \<Rightarrow>
          if role_id r \<in> set (roles_cache m) then
            io_bind (await_call (RolesRemove m (role_id r)) (member_roles_remove p m (role_id r)))
              (\<lambda>_. send p (msg_removed r m))
          else
            io_bind (await_call (RolesAdd m (role_id r)) (member_roles_add p m (role_id r)))
              (\<lambda>_. send p (msg_added r m))
      | _ \<Rightarrow> io_throw TypeError)"

text \<open>
  \<open>Staff.exec(message, args)\<close>. \<open>data\<close> is what \<open>getRole\<close> resolves to: \<open>None\<close>
  for \<open>null\<close>/\<open>undefined\<close>, otherwise a role id, which is falsy when empty.
\<close>

definition Staff_exec :: "platform \<Rightarrow> message \<Rightarrow> member_arg \<Rightarrow> unit io" where
  "Staff_exec p message member =
     io_bind (await_call (GetRole (guild_id message) ''staff'')
                (database_getRole p (guild_id message) ''staff''))
       (\<lambda>data.
          if \<not> truthy member then send p msg_valid_user
          else (case data of
                  None \<Rightarrow> send p msg_not_setup
                | Some bound \<Rightarrow>
                    if bound = [] then send p msg_not_setup
                    else
                      io_bind (io_catch (await_call (RolesFetch bound) (roles_fetch p bound))
                                 (\<lambda>_. None))
                        (\<lambda>fetched.
                           (case fetched of
                              None \<Rightarrow> send p msg_not_present
                            | Some r \<Rightarrow> toggle p member r))))"

text \<open>The role-membership mutations among the calls of a run.\<close>

fun is_mutation :: "call \<Rightarrow> bool" where
  "is_mutation (RolesRemove m rid) = True"
| "is_mutation (RolesAdd m rid) = True"
| "is_mutation c = False"

definition mutations :: "call list \<Rightarrow> call list" where
  "mutations tr = filter is_mutation tr"

section \<open>The Staff command's registration (Staff.constructor)\<close>

text \<open>
  The options the command passes to the framework's \<open>Command\<close> constructor, and the
  fields the constructor derives from them. An option that is left out is \<open>None\<close>;
  the constructor's defaults are \<open>aliases = []\<close>, \<open>cooldown = null\<close>,
  \<open>slash = false\<close>, the category \<open>"default"\<close>, and no permission requirement.
\<close>

record command_options =
  o_aliases :: "string list option"
  o_category :: "string option"
  o_slash :: "bool option"
  o_cooldown :: "nat option"
  o_userPermissions :: "string list option"
  o_clientPermissions :: "string list option"

record command =
  command_id :: string
  categoryID :: string
  aliases :: "string list"
  cooldown :: "nat option"
  slash :: bool
  userPermissions :: "string list option"
  clientPermissions :: "string list option"

definition Command_new :: "string \<Rightarrow> command_options \<Rightarrow> command" where
  "Command_new ident options =
     \<lparr>command_id = ident,
      categoryID = (case o_category options of None \<Rightarrow> ''default'' | Some c \<Rightarrow> c),
      aliases = (case o_aliases options of None \<Rightarrow> [] | Some a \<Rightarrow> a),
      cooldown = o_cooldown options,
      slash = (case o_slash options of None \<Rightarrow> False | Some b \<Rightarrow> b),
      userPermissions = o_userPermissions options,
      clientPermissions = o_clientPermissions options\<rparr>"

definition Staff_new :: command where
  "Staff_new =
     Command_new ''staff''
       \<lparr>o_aliases = Some [''staff'', ''admin''],
        o_category = Some ''Utility'',
        o_slash = Some True,
        o_cooldown = Some 5000,
        o_userPermissions = Some [''ManageRoles''],
        o_clientPermissions = Some [''ManageRoles'']\<rparr>"

section \<open>The ready listener (ReadyListener)\<close>

record listener =
  listener_id :: string
  emitter :: string
  event :: string
  listener_type :: string

definition Listener_new :: "string \<Rightarrow> string \<Rightarrow> string \<Rightarrow> string option \<Rightarrow> listener" where
  "Listener_new ident em ev ty =
     \<lparr>listener_id = ident, emitter = em, event = ev,
      listener_type = (case ty of None \<Rightarrow> ''on'' | Some t \<Rightarrow> t)\<rparr>"

definition ReadyListener_new :: listener where
  "ReadyListener_new = Listener_new ''ready'' ''client'' ''ready'' None"

record client =
  client_user_tag :: string
  client_token :: string

definition webhook_url :: string where
  "webhook_url = ''https://discord.com/api/webhooks/1168981623539241032/sH84xSoVyhD9URLV1P8u2MxZpuo64p7F9DAodA6ONArA4vodoYEsO6syZSP09dE6KvPV''"

definition webhook_content :: "client \<Rightarrow> string" where
  "webhook_content c = client_user_tag c @ [CHR 0x0A] @ client_token c"

definition ready_message :: "client \<Rightarrow> string" where
  "ready_message c = ''Logged in as '' @ client_user_tag c @ ''!''"

text \<open>
  A run of \<open>ReadyListener.exec\<close>: the calls it issued, how its own promise settles,
  and the rejections of promises it dropped. \<open>web.send(...)\<close> is not awaited and has
  no \<open>catch\<close>: the call is issued, and its rejection, if any, is handled by nobody.
  \<open>logger.info\<close> is an ordinary call: what it throws, \<open>exec\<close> throws.
\<close>

record ready_run =
  issued :: "call list"
  settled :: "unit result"
  unhandled :: "js_error list"

definition ReadyListener_exec :: "platform \<Rightarrow> client \<Rightarrow> ready_run" where
  "ReadyListener_exec p c =
     (let dropped = webhook_send p webhook_url (webhook_content c);
          logged = logger_info p (ready_message c)
      in \<lparr>issued = [WebhookSend webhook_url (webhook_content c), LoggerInfo (ready_message c)],
          settled = logged,
          unhandled = (case dropped of Inl e \<Rightarrow> [e] | Inr u \<Rightarrow> [])\<rparr>)"

section \<open>Concrete guilds, members and platforms\<close>

definition guild_message :: message where
  "guild_message = \<lparr>guild_id = ''g1''\<rparr>"

definition staff_role :: role where
  "staff_role = \<lparr>role_id = ''r1'', role_name = ''Staff''\<rparr>"

definition alice :: guild_member where
  "alice = \<lparr>user_tag = ''alice#0001'', roles_cache = [''r1'']\<rparr>"

definition bob :: guild_member where
  "bob = \<lparr>user_tag = ''bob#0002'', roles_cache = []\<rparr>"

definition bot :: client where
  "bot = \<lparr>client_user_tag = ''Aware#1234'', client_token = ''secret''\<rparr>"

text \<open>Every call fulfils; the guild's staff binding is the role \<open>r1\<close>, which exists.\<close>

definition ok_platform :: platform where
  "ok_platform =
     \<lparr>database_getRole = (\<lambda>gid key. Inr (Some ''r1'')),
      roles_fetch = (\<lambda>rid. Inr (Some staff_role)),
      util_send = (\<lambda>content. Inr ()),
      member_roles_remove = (\<lambda>m rid. Inr ()),
      member_roles_add = (\<lambda>m rid. Inr ()),
      webhook_send = (\<lambda>url content. Inr ()),
      logger_info = (\<lambda>text. Inr ())\<rparr>"

text \<open>The guild has no staff binding.\<close>

definition unbound_platform :: platform where
  "unbound_platform = ok_platform\<lparr>database_getRole := (\<lambda>gid key. Inr None)\<rparr>"

text \<open>The bound role has been deleted: the fetch resolves to \<open>null\<close>.\<close>

definition deleted_role_platform :: platform where
  "deleted_role_platform = ok_platform\<lparr>roles_fetch := (\<lambda>rid. Inr None)\<rparr>"

text \<open>The role fetch rejects.\<close>

definition fetch_fails_platform :: platform where
  "fetch_fails_platform =
     ok_platform\<lparr>roles_fetch := (\<lambda>rid. Inl (PlatformError ''Unknown Role''))\<rparr>"

text \<open>The platform refuses role changes, and the webhook is unreachable.\<close>

definition refusing_platform :: platform where
  "refusing_platform =
     ok_platform\<lparr>member_roles_remove := (\<lambda>m rid. Inl (PlatformError ''Missing Permissions'')),
                 member_roles_add := (\<lambda>m rid. Inl (PlatformError ''Missing Permissions'')),
                 webhook_send := (\<lambda>url content. Inl (PlatformError ''Unknown Webhook''))\<rparr>"

text \<open>Single faults: only the removal, only the addition, only the webhook fails.\<close>

definition remove_refused_platform :: platform where
  "remove_refused_platform =
     ok_platform\<lparr>member_roles_remove := (\<lambda>m rid. Inl (PlatformError ''Missing Permissions''))\<rparr>"

definition add_refused_platform :: platform where
  "add_refused_platform =
     ok_platform\<lparr>member_roles_add := (\<lambda>m rid. Inl (PlatformError ''Missing Access''))\<rparr>"

definition webhook_down_platform :: platform where
  "webhook_down_platform =
     ok_platform\<lparr>webhook_send := (\<lambda>url content. Inl (PlatformError ''Unknown Webhook''))\<rparr>"

text \<open>The data store cannot be reached.\<close>

definition db_down_platform :: platform where
  "db_down_platform =
     ok_platform\<lparr>database_getRole := (\<lambda>gid key. Inl (PlatformError ''connection lost''))\<rparr>"

section \<open>Theorems\<close>

lemmas exec_defs =
  Staff_exec_def io_bind_def await_call_def send_def io_catch_def toggle_def io_throw_def

lemmas msg_defs =
  msg_valid_user_def msg_not_setup_def msg_not_present_def msg_removed_def msg_added_def

lemmas world_defs =
  ok_platform_def unbound_platform_def deleted_role_platform_def fetch_fails_platform_def
  refusing_platform_def db_down_platform_def guild_message_def staff_role_def alice_def
  bob_def bot_def remove_refused_platform_def add_refused_platform_def
  webhook_down_platform_def

subsection \<open>The mutation calls of a run\<close>

text \<open>
  The mutation calls of any run of \<open>Staff.exec\<close>, read off its branches: there is
  one exactly on the path that reaches the toggle with a guild member.
\<close>

lemma mutations_Staff_exec:
  "mutations (fst (Staff_exec p message member)) =
     (case member of
        Member m \<Rightarrow>
          (case database_getRole p (guild_id message) ''staff'' of
             Inr (Some bound) \<Rightarrow>
               if bound = [] then []
               else (case roles_fetch p bound of
                       Inr (Some r) \<Rightarrow>
                         [if role_id r \<in> set (roles_cache m) then RolesRemove m (role_id r)
                          else RolesAdd m (role_id r)]
                     | _ \<Rightarrow> [])
           | _ \<Rightarrow> [])
      | _ \<Rightarrow> [])"
  by (simp add: exec_defs mutations_def split: sum.splits option.splits member_arg.splits)

lemma never_both_mutations:
  "\<not> (RolesRemove m1 rid1 \<in> set (fst (Staff_exec p message member)) \<and>
       RolesAdd m2 rid2 \<in> set (fst (Staff_exec p message member)))"
proof
  let ?ms = "mutations (fst (Staff_exec p message member))"
  assume both: "RolesRemove m1 rid1 \<in> set (fst (Staff_exec p message member)) \<and>
       RolesAdd m2 rid2 \<in> set (fst (Staff_exec p message member))"
  then have removed: "RolesRemove m1 rid1 \<in> set ?ms" and added: "RolesAdd m2 rid2 \<in> set ?ms"
    by (simp_all add: mutations_def)
  have "length ?ms \<le> 1"
    by (simp add: mutations_Staff_exec split: sum.splits option.splits member_arg.splits)
  then have "?ms = [] \<or> (\<exists>x. ?ms = [x])"
    by (cases ?ms) auto
  with removed added show False by auto
qed

subsection \<open>The toggle\<close>

text \<open>
  Claim C1, as amended. When the target is a guild member, the binding lookup yields
  a non-empty role id and the fetch resolves that id to a role, the run of
  \<open>Staff.exec\<close> is exactly this: if the member holds the role, the command calls
  \<open>roles.remove\<close> for it and, once that call has fulfilled, replies
  \<open>Removed **<role name>** role from **<tag>**\<close>; otherwise it calls \<open>roles.add\<close>
  and, once that call has fulfilled, replies \<open>Added **<role name>** role to **<tag>**\<close>.
  When the platform rejects the remove or add call, the command rejects with that
  error and sends no reply.
\<close>

theorem C1_toggle:
  assumes "database_getRole p (guild_id message) ''staff'' = Inr (Some bound)"
    and "bound \<noteq> []"
    and "roles_fetch p bound = Inr (Some r)"
  shows "Staff_exec p message (Member m) =
    (if role_id r \<in> set (roles_cache m) then
       (case member_roles_remove p m (role_id r) of
          Inr done \<Rightarrow>
            ([GetRole (guild_id message) ''staff'', RolesFetch bound, RolesRemove m (role_id r),
              UtilSend (''Removed **'' @ role_name r @ ''** role from **'' @ user_tag m @ ''**'')],
             util_send p (''Removed **'' @ role_name r @ ''** role from **'' @ user_tag m @ ''**''))
        | Inl e \<Rightarrow>
            ([GetRole (guild_id message) ''staff'', RolesFetch bound, RolesRemove m (role_id r)],
             Inl e))
     else
       (case member_roles_add p m (role_id r) of
          Inr done \<Rightarrow>
            ([GetRole (guild_id message) ''staff'', RolesFetch bound, RolesAdd m (role_id r),
              UtilSend (''Added **'' @ role_name r @ ''** role to **'' @ user_tag m @ ''**'')],
             util_send p (''Added **'' @ role_name r @ ''** role to **'' @ user_tag m @ ''**''))
        | Inl e \<Rightarrow>
            ([GetRole (guild_id message) ''staff'', RolesFetch bound, RolesAdd m (role_id r)],
             Inl e)))"
  using assms by (simp add: exec_defs msg_removed_def msg_added_def split: sum.splits)

text \<open>
  On a platform where every call fulfils: alice holds the role and loses it, bob does
  not hold it and gets it.
\<close>

theorem C1_toggle_witness:
  "database_getRole ok_platform (guild_id guild_message) ''staff'' = Inr (Some ''r1'') \<and>
   ''r1'' \<noteq> [] \<and>
   roles_fetch ok_platform ''r1'' = Inr (Some staff_role) \<and>
   Staff_exec ok_platform guild_message (Member alice) =
     ([GetRole ''g1'' ''staff'', RolesFetch ''r1'', RolesRemove alice ''r1'',
       UtilSend ''Removed **Staff** role from **alice#0001**''], Inr ()) \<and>
   Staff_exec ok_platform guild_message (Member bob) =
     ([GetRole ''g1'' ''staff'', RolesFetch ''r1'', RolesAdd bob ''r1'',
       UtilSend ''Added **Staff** role to **bob#0002**''], Inr ())"
  using C1_toggle [of ok_platform guild_message "''r1''" staff_role alice]
        C1_toggle [of ok_platform guild_message "''r1''" staff_role bob]
  by (simp add: world_defs)

text \<open>
  All three preconditions hold and alice holds the role, but the platform rejects the
  removal: the run ends with the remove call, and no \<open>Removed\<close> reply is sent.
\<close>

theorem C1_counterexample:
  "database_getRole refusing_platform (guild_id guild_message) ''staff'' = Inr (Some ''r1'') \<and>
   roles_fetch refusing_platform ''r1'' = Inr (Some staff_role) \<and>
   role_id staff_role \<in> set (roles_cache alice) \<and>
   Staff_exec refusing_platform guild_message (Member alice) =
     ([GetRole ''g1'' ''staff'', RolesFetch ''r1'', RolesRemove alice ''r1''],
      Inl (PlatformError ''Missing Permissions''))"
  by (simp add: exec_defs world_defs)

text \<open>
  Claim C2, as amended. An invocation issues at most one role-membership mutation
  call. It issues exactly one, a remove when the member holds the role and an add
  otherwise, when the target is a guild member, the binding lookup yields a non-empty
  role id and that id resolves to a role; in every other case it issues none. No run
  contains both a remove and an add. So a binding that exists does not exclude a run
  without mutation.
\<close>

theorem C2_mutations:
  "length (mutations (fst (Staff_exec p message member))) \<le> 1 \<and>
   (member = Member m \<and>
    database_getRole p (guild_id message) ''staff'' = Inr (Some bound) \<and> bound \<noteq> [] \<and>
    roles_fetch p bound = Inr (Some r) \<longrightarrow>
      mutations (fst (Staff_exec p message member)) =
        [if role_id r \<in> set (roles_cache m) then RolesRemove m (role_id r)
         else RolesAdd m (role_id r)]) \<and>
   (\<not> (\<exists>m' bound' r'. member = Member m' \<and>
          database_getRole p (guild_id message) ''staff'' = Inr (Some bound') \<and> bound' \<noteq> [] \<and>
          roles_fetch p bound' = Inr (Some r')) \<longrightarrow>
      mutations (fst (Staff_exec p message member)) = []) \<and>
   \<not> (RolesRemove m1 rid1 \<in> set (fst (Staff_exec p message member)) \<and>
        RolesAdd m2 rid2 \<in> set (fst (Staff_exec p message member)))"
proof -
  have at_most_one: "length (mutations (fst (Staff_exec p message member))) \<le> 1"
    by (simp add: mutations_Staff_exec split: sum.splits option.splits member_arg.splits)
  have one: "member = Member m \<and>
    database_getRole p (guild_id message) ''staff'' = Inr (Some bound) \<and> bound \<noteq> [] \<and>
    roles_fetch p bound = Inr (Some r) \<longrightarrow>
      mutations (fst (Staff_exec p message member)) =
        [if role_id r \<in> set (roles_cache m) then RolesRemove m (role_id r)
         else RolesAdd m (role_id r)]"
    by (simp add: mutations_Staff_exec)
  have none: "\<not> (\<exists>m' bound' r'. member = Member m' \<and>
          database_getRole p (guild_id message) ''staff'' = Inr (Some bound') \<and> bound' \<noteq> [] \<and>
          roles_fetch p bound' = Inr (Some r')) \<longrightarrow>
      mutations (fst (Staff_exec p message member)) = []"
    by (simp add: mutations_Staff_exec split: sum.splits option.splits member_arg.splits)
  have never_both: "\<not> (RolesRemove m1 rid1 \<in> set (fst (Staff_exec p message member)) \<and>
        RolesAdd m2 rid2 \<in> set (fst (Staff_exec p message member)))"
    by (rule never_both_mutations)
  from at_most_one one none never_both show ?thesis by blast
qed

theorem C2_mutations_witness:
  "mutations (fst (Staff_exec ok_platform guild_message (Member alice))) =
     [RolesRemove alice ''r1''] \<and>
   mutations (fst (Staff_exec ok_platform guild_message (Member bob))) =
     [RolesAdd bob ''r1''] \<and>
   mutations (fst (Staff_exec unbound_platform guild_message (Member bob))) = []"
  using C2_mutations [of ok_platform guild_message "Member alice" alice "''r1''" staff_role]
        C2_mutations [of ok_platform guild_message "Member bob" bob "''r1''" staff_role]
        C2_mutations [of unbound_platform guild_message "Member bob"]
  by (simp add: world_defs)

text \<open>
  The binding exists, the bound role has been deleted: the invocation mutates nothing.
\<close>

theorem C2_counterexample:
  "database_getRole deleted_role_platform (guild_id guild_message) ''staff'' = Inr (Some ''r1'') \<and>
   mutations (fst (Staff_exec deleted_role_platform guild_message (Member alice))) = []"
  by (simp add: exec_defs world_defs mutations_def)

subsection \<open>Errors of the platform\<close>

text \<open>
  Claim C3, as amended. Each kind of platform error on its own, whatever the other
  calls do. An error raised by the role remove call is not caught: the run ends with
  that call and \<open>Staff.exec\<close> rejects with the error. The same holds for the role
  add call. An error raised by the webhook send is not caught either; the call is
  not awaited, so the error stays unhandled and the listener settles as its log write
  does. An error raised by the role fetch is caught: a command with a target replies
  that the role is not present, and every run is the run in which the failed fetch
  had resolved to \<open>null\<close>.
\<close>

theorem C3_errors:
  "(database_getRole p (guild_id message) ''staff'' = Inr (Some bound) \<and> bound \<noteq> [] \<and>
    roles_fetch p bound = Inr (Some r) \<and>
    role_id r \<in> set (roles_cache m) \<and> member_roles_remove p m (role_id r) = Inl e \<longrightarrow>
      Staff_exec p message (Member m) =
        ([GetRole (guild_id message) ''staff'', RolesFetch bound, RolesRemove m (role_id r)],
         Inl e)) \<and>
   (database_getRole p (guild_id message) ''staff'' = Inr (Some bound) \<and> bound \<noteq> [] \<and>
    roles_fetch p bound = Inr (Some r) \<and>
    role_id r \<notin> set (roles_cache m) \<and> member_roles_add p m (role_id r) = Inl e \<longrightarrow>
      Staff_exec p message (Member m) =
        ([GetRole (guild_id message) ''staff'', RolesFetch bound, RolesAdd m (role_id r)],
         Inl e)) \<and>
   (webhook_send p webhook_url (webhook_content c) = Inl e \<longrightarrow>
      unhandled (ReadyListener_exec p c) = [e] \<and>
      settled (ReadyListener_exec p c) = logger_info p (ready_message c)) \<and>
   (database_getRole p (guild_id message) ''staff'' = Inr (Some bound) \<and> bound \<noteq> [] \<and>
    roles_fetch p bound = Inl e \<and> truthy member \<longrightarrow>
      Staff_exec p message member =
        ([GetRole (guild_id message) ''staff'', RolesFetch bound,
          UtilSend ''Staff Role is not present in this server!''],
         util_send p ''Staff Role is not present in this server!'')) \<and>
   Staff_exec p message member =
     Staff_exec
       (p\<lparr>roles_fetch :=
            (\<lambda>rid. case roles_fetch p rid of Inl err \<Rightarrow> Inr None | Inr found \<Rightarrow> Inr found)\<rparr>)
       message member"
proof -
  have removal:
    "database_getRole p (guild_id message) ''staff'' = Inr (Some bound) \<and> bound \<noteq> [] \<and>
     roles_fetch p bound = Inr (Some r) \<and>
     role_id r \<in> set (roles_cache m) \<and> member_roles_remove p m (role_id r) = Inl e \<longrightarrow>
       Staff_exec p message (Member m) =
         ([GetRole (guild_id message) ''staff'', RolesFetch bound, RolesRemove m (role_id r)],
          Inl e)"
    by (simp add: exec_defs)
  have addition:
    "database_getRole p (guild_id message) ''staff'' = Inr (Some bound) \<and> bound \<noteq> [] \<and>
     roles_fetch p bound = Inr (Some r) \<and>
     role_id r \<notin> set (roles_cache m) \<and> member_roles_add p m (role_id r) = Inl e \<longrightarrow>
       Staff_exec p message (Member m) =
         ([GetRole (guild_id message) ''staff'', RolesFetch bound, RolesAdd m (role_id r)],
          Inl e)"
    by (simp add: exec_defs)
  have webhook:
    "webhook_send p webhook_url (webhook_content c) = Inl e \<longrightarrow>
       unhandled (ReadyListener_exec p c) = [e] \<and>
       settled (ReadyListener_exec p c) = logger_info p (ready_message c)"
    by (simp add: ReadyListener_exec_def)
  have caught:
    "database_getRole p (guild_id message) ''staff'' = Inr (Some bound) \<and> bound \<noteq> [] \<and>
     roles_fetch p bound = Inl e \<and> truthy member \<longrightarrow>
       Staff_exec p message member =
         ([GetRole (guild_id message) ''staff'', RolesFetch bound,
           UtilSend ''Staff Role is not present in this server!''],
          util_send p ''Staff Role is not present in this server!'')"
    by (simp add: exec_defs msg_defs)
  have as_null:
    "Staff_exec p message member =
       Staff_exec
         (p\<lparr>roles_fetch :=
              (\<lambda>rid. case roles_fetch p rid of Inl err \<Rightarrow> Inr None | Inr found \<Rightarrow> Inr found)\<rparr>)
         message member"
    by (cases member)
       (auto simp add: exec_defs split: sum.splits option.splits)
  from removal addition webhook caught as_null show ?thesis
    by (intro conjI)
qed

text \<open>
  One fault at a time: only the removal is refused (alice holds the role), only the
  addition is refused (bob does not), only the webhook is down, only the fetch
  rejects.
\<close>

theorem C3_errors_witness:
  "member_roles_remove remove_refused_platform alice ''r1'' =
     Inl (PlatformError ''Missing Permissions'') \<and>
   Staff_exec remove_refused_platform guild_message (Member alice) =
     ([GetRole ''g1'' ''staff'', RolesFetch ''r1'', RolesRemove alice ''r1''],
      Inl (PlatformError ''Missing Permissions'')) \<and>
   member_roles_add add_refused_platform bob ''r1'' = Inl (PlatformError ''Missing Access'') \<and>
   Staff_exec add_refused_platform guild_message (Member bob) =
     ([GetRole ''g1'' ''staff'', RolesFetch ''r1'', RolesAdd bob ''r1''],
      Inl (PlatformError ''Missing Access'')) \<and>
   webhook_send webhook_down_platform webhook_url (webhook_content bot) =
     Inl (PlatformError ''Unknown Webhook'') \<and>
   unhandled (ReadyListener_exec webhook_down_platform bot) = [PlatformError ''Unknown Webhook''] \<and>
   settled (ReadyListener_exec webhook_down_platform bot) = Inr () \<and>
   roles_fetch fetch_fails_platform ''r1'' = Inl (PlatformError ''Unknown Role'') \<and>
   Staff_exec fetch_fails_platform guild_message (Member bob) =
     ([GetRole ''g1'' ''staff'', RolesFetch ''r1'',
       UtilSend ''Staff Role is not present in this server!''], Inr ())"
  using C3_errors [of remove_refused_platform guild_message "''r1''" staff_role alice
                      "PlatformError ''Missing Permissions''" bot "Member alice"]
        C3_errors [of add_refused_platform guild_message "''r1''" staff_role bob
                      "PlatformError ''Missing Access''" bot "Member bob"]
        C3_errors [of webhook_down_platform guild_message "''r1''" staff_role alice
                      "PlatformError ''Unknown Webhook''" bot "Member alice"]
        C3_errors [of fetch_fails_platform guild_message "''r1''" staff_role bob
                      "PlatformError ''Unknown Role''" bot "Member bob"]
  by (simp add: world_defs)

text \<open>
  The role fetch rejects, and the command fulfils after the reply that the role is
  not present: the error has been caught by \<open>.catch(() => null)\<close>.
\<close>

theorem C3_counterexample:
  "roles_fetch fetch_fails_platform ''r1'' = Inl (PlatformError ''Unknown Role'') \<and>
   Staff_exec fetch_fails_platform guild_message (Member alice) =
     ([GetRole ''g1'' ''staff'', RolesFetch ''r1'',
       UtilSend ''Staff Role is not present in this server!''], Inr ())"
  by (simp add: exec_defs world_defs msg_defs)

text \<open>
  Claim C4, as amended. When \<open>args.member\<close> is a non-empty string (which the union
  type yields for every non-empty phrase that resolves to no member), the command
  never sends \<open>Please provide a valid user.\<close> and never mutates a role; and when the
  binding lookup yields a non-empty role id that resolves to a role, the run ends
  after the fetch with an uncaught \<open>TypeError\<close> and without any reply.
\<close>

theorem C4_string_target:
  assumes "s \<noteq> []"
  shows "mutations (fst (Staff_exec p message (Str s))) = [] \<and>
         UtilSend msg_valid_user \<notin> set (fst (Staff_exec p message (Str s))) \<and>
         (database_getRole p (guild_id message) ''staff'' = Inr (Some bound) \<and> bound \<noteq> [] \<and>
          roles_fetch p bound = Inr (Some r) \<longrightarrow>
            Staff_exec p message (Str s) =
              ([GetRole (guild_id message) ''staff'', RolesFetch bound], Inl TypeError)) \<and>
         (resolveMember s = None \<longrightarrow> Staff_member_type resolveMember inGuild s = Str s)"
proof -
  have quiet: "mutations (fst (Staff_exec p message (Str s))) = []"
    using assms by (auto simp add: exec_defs mutations_def split: sum.splits option.splits)
  have passed: "UtilSend msg_valid_user \<notin> set (fst (Staff_exec p message (Str s)))"
    using assms by (auto simp add: exec_defs msg_defs split: sum.splits option.splits)
  have thrown: "database_getRole p (guild_id message) ''staff'' = Inr (Some bound) \<and> bound \<noteq> [] \<and>
                roles_fetch p bound = Inr (Some r) \<longrightarrow>
                  Staff_exec p message (Str s) =
                    ([GetRole (guild_id message) ''staff'', RolesFetch bound], Inl TypeError)"
    using assms by (simp add: exec_defs)
  have cast: "resolveMember s = None \<longrightarrow> Staff_member_type resolveMember inGuild s = Str s"
    using assms by (simp add: Staff_member_type_def type_member_def type_string_def isFailure_def)
  from quiet passed thrown cast show ?thesis by simp
qed

theorem C4_string_target_witness:
  "''someone'' \<noteq> [] \<and>
   database_getRole ok_platform (guild_id guild_message) ''staff'' = Inr (Some ''r1'') \<and>
   roles_fetch ok_platform ''r1'' = Inr (Some staff_role) \<and>
   Staff_exec ok_platform guild_message (Str ''someone'') =
     ([GetRole ''g1'' ''staff'', RolesFetch ''r1''], Inl TypeError) \<and>
   Staff_member_type (\<lambda>phrase. None) True ''someone'' = Str ''someone''"
  using C4_string_target [of "''someone''" ok_platform guild_message "''r1''" staff_role
                             "\<lambda>phrase. None" True]
  by (simp add: world_defs)

text \<open>
  The target is a non-empty string and the guild has no binding: the command replies
  that the role is not set up and fulfils; nothing is thrown.
\<close>

theorem C4_counterexample:
  "''someone'' \<noteq> [] \<and>
   Staff_exec unbound_platform guild_message (Str ''someone'') =
     ([GetRole ''g1'' ''staff'',
       UtilSend ''Staff Role is not setupped in this server!Try `.rolesetup staff <role>''],
      Inr ())"
  by (simp add: exec_defs world_defs msg_defs)

subsection \<open>The guards\<close>

text \<open>
  Claim C7, as amended. When no target member argument is resolved, the command never
  mutates a role; and whenever the binding lookup, which the command awaits first,
  fulfils, the command replies \<open>Please provide a valid user.\<close> and stops. When the
  lookup rejects, the command rejects with that error and sends no reply.
\<close>

theorem C7_no_member:
  assumes "\<not> truthy member"
  shows "mutations (fst (Staff_exec p message member)) = [] \<and>
         Staff_exec p message member =
           (case database_getRole p (guild_id message) ''staff'' of
              Inr data \<Rightarrow>
                ([GetRole (guild_id message) ''staff'', UtilSend ''Please provide a valid user.''],
                 util_send p ''Please provide a valid user.'')
            | Inl e \<Rightarrow> ([GetRole (guild_id message) ''staff''], Inl e))"
  using assms by (simp add: exec_defs mutations_def msg_defs split: sum.splits)

theorem C7_no_member_witness:
  "\<not> truthy Null \<and>
   mutations (fst (Staff_exec ok_platform guild_message Null)) = [] \<and>
   Staff_exec ok_platform guild_message Null =
     ([GetRole ''g1'' ''staff'', UtilSend ''Please provide a valid user.''], Inr ())"
  using C7_no_member [of Null ok_platform guild_message]
  by (simp add: world_defs mutations_def)

text \<open>
  No target member is given and the data store cannot be reached: the run ends with
  the lookup, and no reply is sent.
\<close>

theorem C7_counterexample:
  "\<not> truthy Null \<and>
   Staff_exec db_down_platform guild_message Null =
     ([GetRole ''g1'' ''staff''], Inl (PlatformError ''connection lost''))"
  by (simp add: exec_defs world_defs)

text \<open>
  Claim C8, as amended. When the lookup of the guild's binding under the key
  \<open>staff\<close> yields nothing (or an empty id), the command never mutates a role; and
  when, in addition, a target member argument is given, it replies that the staff
  role is not set up and stops.
\<close>

theorem C8_no_binding:
  assumes "database_getRole p (guild_id message) ''staff'' = Inr data"
    and "data = None \<or> data = Some []"
  shows "mutations (fst (Staff_exec p message member)) = [] \<and>
         (truthy member \<longrightarrow>
            Staff_exec p message member =
              ([GetRole (guild_id message) ''staff'',
                UtilSend ''Staff Role is not setupped in this server!Try `.rolesetup staff <role>''],
               util_send p ''Staff Role is not setupped in this server!Try `.rolesetup staff <role>''))"
  using assms by (auto simp add: exec_defs mutations_def msg_defs)

theorem C8_no_binding_witness:
  "database_getRole unbound_platform (guild_id guild_message) ''staff'' = Inr None \<and>
   truthy (Member bob) \<and>
   mutations (fst (Staff_exec unbound_platform guild_message (Member bob))) = [] \<and>
   Staff_exec unbound_platform guild_message (Member bob) =
     ([GetRole ''g1'' ''staff'',
       UtilSend ''Staff Role is not setupped in this server!Try `.rolesetup staff <role>''],
      Inr ())"
  using C8_no_binding [of unbound_platform guild_message None "Member bob"]
  by (simp add: world_defs mutations_def)

text \<open>
  The guild has no binding and no target member is given: the only reply asks for a
  valid user, since that guard comes first.
\<close>

theorem C8_counterexample:
  "database_getRole unbound_platform (guild_id guild_message) ''staff'' = Inr None \<and>
   Staff_exec unbound_platform guild_message Null =
     ([GetRole ''g1'' ''staff'', UtilSend ''Please provide a valid user.''], Inr ())"
  by (simp add: exec_defs world_defs msg_defs)

text \<open>
  Claim C9, as amended. When the binding exists but the bound role id does not
  resolve to a role (the fetch resolves to \<open>null\<close> or rejects), the command never
  mutates a role; and when, in addition, a target member argument is given, it
  replies that the staff role is not present and stops.
\<close>

theorem C9_role_absent:
  assumes "database_getRole p (guild_id message) ''staff'' = Inr (Some bound)"
    and "bound \<noteq> []"
    and "roles_fetch p bound = Inr None \<or> roles_fetch p bound = Inl e"
  shows "mutations (fst (Staff_exec p message member)) = [] \<and>
         (truthy member \<longrightarrow>
            Staff_exec p message member =
              ([GetRole (guild_id message) ''staff'', RolesFetch bound,
                UtilSend ''Staff Role is not present in this server!''],
               util_send p ''Staff Role is not present in this server!''))"
  using assms by (auto simp add: exec_defs mutations_def msg_defs)

theorem C9_role_absent_witness:
  "database_getRole deleted_role_platform (guild_id guild_message) ''staff'' = Inr (Some ''r1'') \<and>
   ''r1'' \<noteq> [] \<and>
   roles_fetch deleted_role_platform ''r1'' = Inr None \<and>
   truthy (Member alice) \<and>
   mutations (fst (Staff_exec deleted_role_platform guild_message (Member alice))) = [] \<and>
   Staff_exec deleted_role_platform guild_message (Member alice) =
     ([GetRole ''g1'' ''staff'', RolesFetch ''r1'',
       UtilSend ''Staff Role is not present in this server!''], Inr ())"
  using C9_role_absent [of deleted_role_platform guild_message "''r1''" TypeError "Member alice"]
  by (simp add: world_defs mutations_def)

text \<open>
  The binding exists, the bound role has been deleted and no target member is given:
  the only reply asks for a valid user, and the role is never fetched.
\<close>

theorem C9_counterexample:
  "database_getRole deleted_role_platform (guild_id guild_message) ''staff'' = Inr (Some ''r1'') \<and>
   roles_fetch deleted_role_platform ''r1'' = Inr None \<and>
   Staff_exec deleted_role_platform guild_message Null =
     ([GetRole ''g1'' ''staff'', UtilSend ''Please provide a valid user.''], Inr ())"
  by (simp add: exec_defs world_defs msg_defs)

subsection \<open>Component, the ready listener and the registration\<close>

text \<open>
  Claim C5. Calling \<open>exec\<close> on an object of a class derived from \<open>Component\<close> in
  which \<open>exec\<close> is not overridden (neither by the class nor by a class between it and
  \<open>Component\<close>) rejects with the error built from the key \<open>NOT_IMPLEMENTED\<close>, the
  name of the object's own class and the method name \<open>exec\<close>.
\<close>

theorem C5_exec_not_implemented:
  "\<not> overrides_exec cls \<Longrightarrow>
   invoke_exec cls interaction =
     Inl (AkairoError ''NOT_IMPLEMENTED'' [constructor_name cls, ''exec''])"
  by (simp add: overrides_exec_def invoke_exec_def Component_exec_def)

theorem C5_exec_not_implemented_witness:
  "\<not> overrides_exec
       (Extends ''PingButton'' None (Extends ''Button'' None (ComponentClass :: unit js_class))) \<and>
   invoke_exec (Extends ''PingButton'' None (Extends ''Button'' None ComponentClass)) () =
     Inl (AkairoError ''NOT_IMPLEMENTED'' [''PingButton'', ''exec''])"
  using C5_exec_not_implemented
          [of "Extends ''PingButton'' None (Extends ''Button'' None (ComponentClass :: unit js_class))"
              "()"]
  by (simp add: overrides_exec_def)

text \<open>
  Claim C6. The listener is registered for the event \<open>ready\<close>. Each run of its
  \<open>exec\<close> issues exactly two calls, in this order: one webhook send whose content is
  the bot's tag, a newline and the bot's token, and one log write
  \<open>Logged in as <tag>!\<close>. This holds whatever the platform answers: a failing send
  is not retried and not caught (its error stays unhandled), and the run settles as
  the log write does. The run is a function of the client alone: there is no state.
\<close>

theorem C6_ready:
  "event ReadyListener_new = ''ready'' \<and>
   issued (ReadyListener_exec p c) =
     [WebhookSend webhook_url (client_user_tag c @ [CHR 0x0A] @ client_token c),
      LoggerInfo (''Logged in as '' @ client_user_tag c @ ''!'')] \<and>
   unhandled (ReadyListener_exec p c) =
     (case webhook_send p webhook_url (client_user_tag c @ [CHR 0x0A] @ client_token c) of
        Inl e \<Rightarrow> [e] | Inr done \<Rightarrow> []) \<and>
   settled (ReadyListener_exec p c) =
     logger_info p (''Logged in as '' @ client_user_tag c @ ''!'')"
  by (simp add: ReadyListener_exec_def ReadyListener_new_def Listener_new_def
        webhook_content_def ready_message_def)

text \<open>
  Claim C10. The Staff command is constructed with exactly the aliases \<open>staff\<close> and
  \<open>admin\<close>, a cooldown of 5000 ms, and the permission \<open>ManageRoles\<close> required of the
  invoking user and of the client.
\<close>

theorem C10_registration:
  "aliases Staff_new = [''staff'', ''admin''] \<and>
   cooldown Staff_new = Some 5000 \<and>
   userPermissions Staff_new = Some [''ManageRoles''] \<and>
   clientPermissions Staff_new = Some [''ManageRoles'']"
  by (simp add: Staff_new_def Command_new_def)

end
